theory Spec2Isabelle
  imports Main
begin

section \<open>Data model (src/types, BattleState of useBattleEngine)\<close>

text \<open>
  The TypeScript type \<open>number\<close> is modelled by \<open>int\<close>: the engine only adds,
  subtracts and compares the integer values of the character data. Strings are byte
  lists holding the UTF-8 encoding of the source's text.
\<close>

datatype AbilityType = Attack | Heal | Shield | Buff

record Ability =
  name :: string
  description :: string
  type :: AbilityType
  power :: int
  cooldown :: int
  currentCooldown :: int

text \<open>\<open>statusEffects\<close> is \<open>any[]\<close> in the source; the engine never looks inside it.\<close>

record Character =
  id :: string
  name :: string
  maxHP :: int
  currentHP :: int
  shield :: int
  currentShield :: "int option"
  image :: string
  quote :: string
  statusEffects :: "string list"
  abilities :: "Ability list"

datatype Side = Player | Enemy

datatype EffectType = Eff_damage | Eff_heal | Eff_shield

record Effect =
  type :: EffectType
  target :: Side
  "value" :: int

text \<open>
  \<open>lastAttacker\<close> is \<open>"player" | "enemy" | null\<close> and \<open>lastEffect\<close> is optional:
  both are options here, \<open>None\<close> standing for \<open>null\<close> and \<open>undefined\<close>.
\<close>

record BattleState =
  player :: Character
  enemy :: Character
  turn :: int
  log :: "string list"
  lastAttacker :: "Side option"
  lastEffect :: "Effect option"
  gameOver :: bool

record ApplyResult =
  updatedSource :: Character
  updatedTarget :: Character
  effect :: "Effect option"
  logEntry :: string

datatype error = TypeError

section \<open>JavaScript primitives used by the engine\<close>

text \<open>The remainder operator \<open>%\<close> of JavaScript truncates: the result has the sign of
  the dividend.\<close>

definition js_rem :: "int \<Rightarrow> int \<Rightarrow> int" where
  "js_rem a b = sgn a * (\<bar>a\<bar> mod \<bar>b\<bar>)"

text \<open>Template-literal interpolation of an integer-valued number: its decimal digits,
  with a leading minus sign when negative.\<close>

fun digits :: "nat \<Rightarrow> string" where
  "digits n = (if n < 10 then [''0123456789'' ! n]
               else digits (n div 10) @ [''0123456789'' ! (n mod 10)])"

definition num_str :: "int \<Rightarrow> string" where
  "num_str i = (if i < 0 then ''-'' @ digits (nat (- i)) else digits (nat i))"

section \<open>useBattleEngine\<close>

subsection \<open>Initialisation (the first effect hook)\<close>

text \<open>\<open>"Souboj za\<close>c-caron\<open>al!"\<close>, the initial log line.\<close>

definition battle_started :: string where
  "battle_started = ''Souboj za'' @ [CHR 0xC4, CHR 0x8D] @ ''al!''"

definition initState :: "Character \<Rightarrow> Character \<Rightarrow> BattleState" where
  "initState p e =
     \<lparr> player = p\<lparr>shield := 0, statusEffects := []\<rparr>,
       enemy = e\<lparr>shield := 0, statusEffects := []\<rparr>,
       turn = 0,
       log = [battle_started],
       lastAttacker = None,
       lastEffect = None,
       gameOver = False \<rparr>"

subsection \<open>endTurn\<close>

definition endTurn :: "BattleState \<Rightarrow> BattleState" where
  "endTurn nextState =
     (let gameOver' = (currentHP (player nextState) \<le> 0 \<or> currentHP (enemy nextState) \<le> 0)
      in nextState\<lparr>turn := turn nextState + 1, gameOver := gameOver'\<rparr>)"

subsection \<open>applyAbility\<close>

text \<open>The fixed pieces of the log line, in UTF-8.\<close>

definition txt_used :: string where
  "txt_used = '' pou'' @ [CHR 0xC5, CHR 0xBE] @ ''il ''"

definition txt_damage_pre :: string where
  "txt_damage_pre = '' a zp'' @ [CHR 0xC5, CHR 0xAF] @ ''sobil ''"

definition txt_damage_post :: string where
  "txt_damage_post =
     '' po'' @ [CHR 0xC5, CHR 0xA1] @ ''kozen'' @ [CHR 0xC3, CHR 0xAD] @ ''.''"

definition txt_heal_pre :: string where
  "txt_heal_pre =
     '' a vyl'' @ [CHR 0xC3, CHR 0xA9, CHR 0xC4, CHR 0x8D] @ ''il se o ''"

definition txt_heal_post :: string where
  "txt_heal_post = '' HP.''"

definition txt_shield_pre :: string where
  "txt_shield_pre =
     '' a z'' @ [CHR 0xC3, CHR 0xAD] @ ''skal '' @ [CHR 0xC5, CHR 0xA1] @ ''t''
       @ [CHR 0xC3, CHR 0xAD] @ ''t o s'' @ [CHR 0xC3, CHR 0xAD] @ ''le ''"

text \<open>The map over the source's abilities that ends \<open>applyAbility\<close>: the used ability
  is recognised by its name.\<close>

definition updateCooldown :: "Ability \<Rightarrow> Ability \<Rightarrow> Ability" where
  "updateCooldown ability a =
     (if Ability.name a = Ability.name ability
      then a\<lparr>currentCooldown := cooldown a\<rparr>
      else if currentCooldown a > 0
      then a\<lparr>currentCooldown := currentCooldown a - 1\<rparr>
      else a)"

text \<open>
  The parameter \<open>target\<close> of the source is \<open>targ\<close> here (\<open>target\<close> is a field of
  the effect). The three branches on \<open>ability.type\<close>; each returns the copies, the effect and the
  log text it leaves. \<open>targetCopy.shield && targetCopy.shield > 0\<close> tests the number
  for truthiness first; \<open>sourceCopy.shield || 0\<close> replaces a falsy shield by 0.
\<close>

definition applyAttack ::
  "Character \<Rightarrow> Character \<Rightarrow> Ability \<Rightarrow> bool \<Rightarrow> string
     \<Rightarrow> Character \<times> Character \<times> Effect option \<times> string" where
  "applyAttack sourceCopy targetCopy ability isPlayer logText =
     (let damage = power ability;
          (targetCopy, damage) =
            (if shield targetCopy \<noteq> 0 \<and> shield targetCopy > 0
             then (let absorb = min damage (shield targetCopy)
                   in (targetCopy\<lparr>shield := shield targetCopy - absorb\<rparr>, damage - absorb))
             else (targetCopy, damage));
          targetCopy = targetCopy\<lparr>currentHP := max (currentHP targetCopy - damage) 0\<rparr>;
          effect = \<lparr> Effect.type = Eff_damage,
                     target = (if isPlayer then Enemy else Player),
                     value = damage \<rparr>
      in (sourceCopy, targetCopy, Some effect,
          logText @ txt_damage_pre @ num_str damage @ txt_damage_post))"

definition applyHeal ::
  "Character \<Rightarrow> Character \<Rightarrow> Ability \<Rightarrow> bool \<Rightarrow> string
     \<Rightarrow> Character \<times> Character \<times> Effect option \<times> string" where
  "applyHeal sourceCopy targetCopy ability isPlayer logText =
     (let healed = min (power ability) (maxHP sourceCopy - currentHP sourceCopy);
          sourceCopy = sourceCopy\<lparr>currentHP := currentHP sourceCopy + healed\<rparr>;
          effect = \<lparr> Effect.type = Eff_heal,
                     target = (if isPlayer then Player else Enemy),
                     value = healed \<rparr>
      in (sourceCopy, targetCopy, Some effect,
          logText @ txt_heal_pre @ num_str healed @ txt_heal_post))"

definition applyShield ::
  "Character \<Rightarrow> Character \<Rightarrow> Ability \<Rightarrow> bool \<Rightarrow> string
     \<Rightarrow> Character \<times> Character \<times> Effect option \<times> string" where
  "applyShield sourceCopy targetCopy ability isPlayer logText =
     (let sourceCopy = sourceCopy\<lparr>shield :=
            (if shield sourceCopy \<noteq> 0 then shield sourceCopy else 0) + power ability\<rparr>;
          effect = \<lparr> Effect.type = Eff_shield,
                     target = (if isPlayer then Player else Enemy),
                     value = power ability \<rparr>
      in (sourceCopy, targetCopy, Some effect,
          logText @ txt_shield_pre @ num_str (power ability) @ ''.''))"

definition applyAbility :: "Character \<Rightarrow> Character \<Rightarrow> Ability \<Rightarrow> bool \<Rightarrow> ApplyResult" where
  "applyAbility source targ ability isPlayer =
     (let logText = Character.name source @ txt_used @ Ability.name ability;
          (sourceCopy, targetCopy, effect, logText) =
            (if Ability.type ability = Attack
               then applyAttack source targ ability isPlayer logText
             else if Ability.type ability = Heal
               then applyHeal source targ ability isPlayer logText
             else if Ability.type ability = Shield
               then applyShield source targ ability isPlayer logText
             else (source, targ, None, logText));
          updatedAbilities = map (updateCooldown ability) (abilities sourceCopy);
          sourceCopy = sourceCopy\<lparr>abilities := updatedAbilities\<rparr>
      in \<lparr> updatedSource = sourceCopy,
           updatedTarget = targetCopy,
           effect = effect,
           logEntry = logText \<rparr>)"

subsection \<open>useAbility\<close>

text \<open>The hook's state is \<open>BattleState | null\<close>: \<open>None\<close> before the first
  initialisation. Every call returns the state it leaves behind.\<close>

definition useAbility :: "BattleState option \<Rightarrow> Ability \<Rightarrow> BattleState option" where
  "useAbility state ability =
     (case state of
        None \<Rightarrow> state
      | Some s \<Rightarrow>
          if js_rem (turn s) 2 \<noteq> 0 \<or> currentCooldown ability > 0 \<or> gameOver s
          then state
          else
            (let r = applyAbility (player s) (enemy s) ability True;
                 nextState = s\<lparr> player := updatedSource r,
                                 enemy := updatedTarget r,
                                 log := log s @ [logEntry r],
                                 lastAttacker := Some Player,
                                 lastEffect := effect r,
                                 gameOver := (currentHP (updatedTarget r) \<le> 0),
                                 turn := turn s \<rparr>
             in Some (endTurn nextState)))"

subsection \<open>enemyTurn\<close>

text \<open>
  \<open>rnd\<close> is the value of \<open>Math.floor(Math.random() * available.length)\<close>. An index
  outside \<open>available\<close> would read \<open>undefined\<close>, and \<open>applyAbility\<close> would throw a
  TypeError on \<open>ability.name\<close> before any state is set.
\<close>

definition enemyTurn :: "nat \<Rightarrow> BattleState option \<Rightarrow> error + BattleState option" where
  "enemyTurn rnd state =
     (case state of
        None \<Rightarrow> Inr state
      | Some s \<Rightarrow>
          if js_rem (turn s) 2 \<noteq> 1 \<or> gameOver s then Inr state
          else
            (let enemy' = enemy s;
                 player' = player s;
                 available = filter (\<lambda>a. currentCooldown a = 0) (abilities enemy')
             in if length available = 0 then Inr state
                else if rnd \<ge> length available then Inl TypeError
                else
                  (let ability = available ! rnd;
                       r = applyAbility enemy' player' ability False;
                       nextState = s\<lparr> player := updatedTarget r,
                                       enemy := updatedSource r,
                                       log := log s @ [logEntry r],
                                       lastAttacker := Some Enemy,
                                       lastEffect := effect r,
                                       gameOver := (currentHP (updatedTarget r) \<le> 0),
                                       turn := turn s \<rparr>
                   in Inr (Some (endTurn nextState)))))"

subsection \<open>Calls over time\<close>

text \<open>The engine receives \<open>useAbility\<close> from the ability buttons and \<open>enemyTurn\<close>
  from the timer of the second effect hook, one call after the other, each on the state
  the previous one left. A thrown error ends the run.\<close>

datatype Call = UseAbility Ability | EnemyTurn nat

fun calls :: "BattleState option \<Rightarrow> Call list \<Rightarrow> error + BattleState option" where
  "calls state [] = Inr state"
| "calls state (UseAbility ability # cs) = calls (useAbility state ability) cs"
| "calls state (EnemyTurn rnd # cs) =
     (case enemyTurn rnd state of Inl e \<Rightarrow> Inl e | Inr state' \<Rightarrow> calls state' cs)"


section \<open>Sample data\<close>

text \<open>
  Two of the characters of \<open>data/characters.ts\<close>, used to run the engine on concrete
  inputs. Their Czech display texts (\<open>description\<close>, \<open>quote\<close>) are written without
  diacritics; the engine never reads them.
\<close>

definition flameLash :: Ability where
  "flameLash = \<lparr> Ability.name = ''Flame Lash'', description = ''Zpusobi 20 poskozeni.'',
                  type = Attack, power = 20, cooldown = 0, currentCooldown = 0 \<rparr>"

definition aegisWard :: Ability where
  "aegisWard = \<lparr> Ability.name = ''Aegis Ward'', description = ''Vytvori stit o sile 35.'',
                  type = Shield, power = 35, cooldown = 2, currentCooldown = 0 \<rparr>"

definition vitalSurge :: Ability where
  "vitalSurge = \<lparr> Ability.name = ''Vital Surge'', description = ''Vyleci 25 HP.'',
                   type = Heal, power = 25, cooldown = 3, currentCooldown = 0 \<rparr>"

definition emberVortex :: Ability where
  "emberVortex = \<lparr> Ability.name = ''Ember Vortex'', description = ''Zpusobi 35 poskozeni.'',
                    type = Attack, power = 35, cooldown = 4, currentCooldown = 0 \<rparr>"

definition moltenShell :: Ability where
  "moltenShell = \<lparr> Ability.name = ''Molten Shell'', description = ''Vytvori stit o sile 35.'',
                    type = Shield, power = 35, cooldown = 4, currentCooldown = 0 \<rparr>"

definition infernalBlast :: Ability where
  "infernalBlast = \<lparr> Ability.name = ''Infernal Blast'', description = ''Zpusobi 45 poskozeni.'',
                      type = Attack, power = 45, cooldown = 5, currentCooldown = 0 \<rparr>"

definition whisperingVeil :: Ability where
  "whisperingVeil = \<lparr> Ability.name = ''Whispering Veil'', description = ''Vyleci 40 HP.'',
                       type = Heal, power = 40, cooldown = 3, currentCooldown = 0 \<rparr>"

definition chronoRift :: Ability where
  "chronoRift = \<lparr> Ability.name = ''Chrono Rift'', description = ''Zpusobi 30 poskozeni.'',
                   type = Attack, power = 30, cooldown = 4, currentCooldown = 0 \<rparr>"

definition arcaneTrap :: Ability where
  "arcaneTrap = \<lparr> Ability.name = ''Arcane Trap'', description = ''Zpusobi 25 poskozeni.'',
                   type = Attack, power = 25, cooldown = 4, currentCooldown = 0 \<rparr>"

definition valdrin :: Character where
  "valdrin = \<lparr> Character.id = ''valdrin'', name = ''Valdrin Embercloak'',
                maxHP = 100, currentHP = 100, shield = 0, currentShield = None,
                image = ''/characters/player-3.png'',
                quote = ''Ma moc nevychazi z krve, ale z vule.'',
                statusEffects = [],
                abilities = [flameLash, aegisWard, vitalSurge,
                             emberVortex, moltenShell, infernalBlast] \<rparr>"

definition elyndra :: Character where
  "elyndra = \<lparr> Character.id = ''elyndra'', name = ''Elyndra Moonshade'',
                maxHP = 90, currentHP = 90, shield = 0, currentShield = None,
                image = ''/characters/player-2.png'',
                quote = ''Ver v osud, protoze i hvezdy se klani vedeni.'',
                statusEffects = [],
                abilities = [flameLash, aegisWard, vitalSurge,
                             whisperingVeil, chronoRift, arcaneTrap] \<rparr>"

lemmas sample_defs =
  flameLash_def aegisWard_def vitalSurge_def emberVortex_def moltenShell_def
  infernalBlast_def whisperingVeil_def chronoRift_def arcaneTrap_def valdrin_def elyndra_def

section \<open>Basic facts\<close>

lemma js_rem_2_nonzero: "js_rem t 2 \<noteq> 0 \<longleftrightarrow> odd t"
  by (auto simp add: js_rem_def sgn_if abs_if mod_2_eq_odd)

lemma js_rem_2_one: "js_rem t 2 = 1 \<longleftrightarrow> odd t \<and> 0 < t"
  by (auto simp add: js_rem_def sgn_if abs_if mod_2_eq_odd)

lemma js_rem_0_2 [simp]: "js_rem 0 2 = 0"
  by (simp add: js_rem_def)

lemma js_rem_1_2 [simp]: "js_rem 1 2 = 1"
  by (simp add: js_rem_def)

lemma applyAbility_abilities:
  "abilities (updatedSource (applyAbility source targ ability isPlayer)) =
     map (updateCooldown ability) (abilities source)"
  by (simp add: applyAbility_def applyAttack_def applyHeal_def applyShield_def Let_def split_def)

lemma applyAbility_attack:
  "Ability.type ability = Attack \<Longrightarrow>
   applyAbility source targ ability isPlayer =
     (case applyAttack source targ ability isPlayer
             (Character.name source @ txt_used @ Ability.name ability) of
        (sc, tc, eff, lt) \<Rightarrow>
          \<lparr> updatedSource = sc\<lparr>abilities := map (updateCooldown ability) (abilities sc)\<rparr>,
            updatedTarget = tc, effect = eff, logEntry = lt \<rparr>)"
  by (simp add: applyAbility_def Let_def)

lemma applyAbility_heal:
  "Ability.type ability = Heal \<Longrightarrow>
   applyAbility source targ ability isPlayer =
     (case applyHeal source targ ability isPlayer
             (Character.name source @ txt_used @ Ability.name ability) of
        (sc, tc, eff, lt) \<Rightarrow>
          \<lparr> updatedSource = sc\<lparr>abilities := map (updateCooldown ability) (abilities sc)\<rparr>,
            updatedTarget = tc, effect = eff, logEntry = lt \<rparr>)"
  by (simp add: applyAbility_def Let_def)

lemma useAbility_rejected:
  "odd (turn s) \<or> currentCooldown ability > 0 \<or> gameOver s \<Longrightarrow>
   useAbility (Some s) ability = Some s"
  by (auto simp add: useAbility_def js_rem_2_nonzero)

lemma useAbility_accepted:
  "js_rem (turn s) 2 = 0 \<Longrightarrow> currentCooldown ability \<le> 0 \<Longrightarrow> \<not> gameOver s \<Longrightarrow>
   useAbility (Some s) ability =
     Some (s\<lparr> player := updatedSource (applyAbility (player s) (enemy s) ability True),
              enemy := updatedTarget (applyAbility (player s) (enemy s) ability True),
              log := log s @ [logEntry (applyAbility (player s) (enemy s) ability True)],
              lastAttacker := Some Player,
              lastEffect := effect (applyAbility (player s) (enemy s) ability True),
              gameOver :=
                (currentHP (updatedSource (applyAbility (player s) (enemy s) ability True)) \<le> 0
                 \<or> currentHP (updatedTarget (applyAbility (player s) (enemy s) ability True)) \<le> 0),
              turn := turn s + 1 \<rparr>)"
  by (simp add: useAbility_def endTurn_def Let_def)

lemma enemyTurn_rejected:
  "js_rem (turn s) 2 \<noteq> 1 \<or> gameOver s \<Longrightarrow> enemyTurn rnd (Some s) = Inr (Some s)"
  by (auto simp add: enemyTurn_def)

lemma enemyTurn_stalled:
  "filter (\<lambda>a. currentCooldown a = 0) (abilities (enemy s)) = [] \<Longrightarrow>
   enemyTurn rnd (Some s) = Inr (Some s)"
  by (simp add: enemyTurn_def Let_def)

lemma enemyTurn_accepted:
  "js_rem (turn s) 2 = 1 \<Longrightarrow> \<not> gameOver s \<Longrightarrow>
   rnd < length (filter (\<lambda>a. currentCooldown a = 0) (abilities (enemy s))) \<Longrightarrow>
   ability = filter (\<lambda>a. currentCooldown a = 0) (abilities (enemy s)) ! rnd \<Longrightarrow>
   enemyTurn rnd (Some s) =
     Inr (Some (s\<lparr> player := updatedTarget (applyAbility (enemy s) (player s) ability False),
              enemy := updatedSource (applyAbility (enemy s) (player s) ability False),
              log := log s @ [logEntry (applyAbility (enemy s) (player s) ability False)],
              lastAttacker := Some Enemy,
              lastEffect := effect (applyAbility (enemy s) (player s) ability False),
              gameOver :=
                (currentHP (updatedTarget (applyAbility (enemy s) (player s) ability False)) \<le> 0
                 \<or> currentHP (updatedSource (applyAbility (enemy s) (player s) ability False)) \<le> 0),
              turn := turn s + 1 \<rparr>))"
  by (auto simp add: enemyTurn_def endTurn_def Let_def)

lemma calls_after_gameOver: "gameOver s \<Longrightarrow> calls (Some s) cs = Inr (Some s)"
proof (induction cs)
  case Nil
  show ?case by simp
next
  case (Cons c cs)
  then show ?case
    by (cases c) (simp_all add: useAbility_rejected enemyTurn_rejected)
qed

lemma applyAbility_target_fixed:
  "maxHP (updatedTarget (applyAbility source targ ability isPlayer)) = maxHP targ
   \<and> abilities (updatedTarget (applyAbility source targ ability isPlayer)) = abilities targ"
  by (simp add: applyAbility_def applyAttack_def applyHeal_def applyShield_def Let_def split_def)

lemma applyAbility_source_maxHP:
  "maxHP (updatedSource (applyAbility source targ ability isPlayer)) = maxHP source"
  by (simp add: applyAbility_def applyAttack_def applyHeal_def applyShield_def Let_def split_def)

lemma applyAbility_source_powers:
  "map power (abilities (updatedSource (applyAbility source targ ability isPlayer))) =
     map power (abilities source)"
  by (simp add: applyAbility_abilities updateCooldown_def)

lemma source_stays_alive:
  "0 < currentHP source \<Longrightarrow> 0 < maxHP source \<Longrightarrow> 0 \<le> power ability \<Longrightarrow>
   0 < currentHP (updatedSource (applyAbility source targ ability isPlayer))"
  by (auto simp add: applyAbility_def applyAttack_def applyHeal_def applyShield_def Let_def
        split_def)

lemma useAbility_step:
  "\<exists>s'. useAbility (Some s) ability = Some s'
     \<and> maxHP (player s') = maxHP (player s) \<and> maxHP (enemy s') = maxHP (enemy s)
     \<and> map power (abilities (enemy s')) = map power (abilities (enemy s))
     \<and> (s' = s \<or> gameOver s' = (currentHP (player s') \<le> 0 \<or> currentHP (enemy s') \<le> 0))"
proof (cases "js_rem (turn s) 2 \<noteq> 0 \<or> currentCooldown ability > 0 \<or> gameOver s")
  case True
  then have "useAbility (Some s) ability = Some s"
    by (auto simp add: useAbility_def)
  then show ?thesis by simp
next
  case False
  then have "js_rem (turn s) 2 = 0" "currentCooldown ability \<le> 0" "\<not> gameOver s"
    by auto
  then show ?thesis
    by (simp add: useAbility_accepted applyAbility_target_fixed applyAbility_source_maxHP)
qed

lemma enemyTurn_step:
  assumes "enemyTurn rnd (Some s) = Inr st"
  shows "\<exists>s'. st = Some s'
     \<and> maxHP (player s') = maxHP (player s) \<and> maxHP (enemy s') = maxHP (enemy s)
     \<and> map power (abilities (enemy s')) = map power (abilities (enemy s))
     \<and> (s' = s \<or> gameOver s' = (currentHP (player s') \<le> 0 \<or> currentHP (enemy s') \<le> 0))"
proof (cases "js_rem (turn s) 2 = 1 \<and> \<not> gameOver s
              \<and> rnd < length (filter (\<lambda>a. currentCooldown a = 0) (abilities (enemy s)))")
  case True
  then show ?thesis
    using assms enemyTurn_accepted [of s rnd, OF _ _ _ refl]
    by (auto simp add: applyAbility_target_fixed applyAbility_source_maxHP
          applyAbility_source_powers)
next
  case False
  then have "st = Some s"
    using assms by (auto simp add: enemyTurn_def Let_def split: if_splits)
  then show ?thesis by simp
qed

lemma calls_keep:
  "calls (Some s) cs = Inr (Some s') \<Longrightarrow>
   maxHP (player s') = maxHP (player s) \<and> maxHP (enemy s') = maxHP (enemy s)
   \<and> map power (abilities (enemy s')) = map power (abilities (enemy s))
   \<and> (s' = s \<or> gameOver s' = (currentHP (player s') \<le> 0 \<or> currentHP (enemy s') \<le> 0))"
proof (induction cs arbitrary: s)
  case Nil
  then show ?case by simp
next
  case (Cons c cs)
  show ?case
  proof (cases c)
    case (UseAbility ability)
    from useAbility_step [of s ability] obtain s1 where
      s1: "useAbility (Some s) ability = Some s1"
        "maxHP (player s1) = maxHP (player s)" "maxHP (enemy s1) = maxHP (enemy s)"
        "map power (abilities (enemy s1)) = map power (abilities (enemy s))"
        "s1 = s \<or> gameOver s1 = (currentHP (player s1) \<le> 0 \<or> currentHP (enemy s1) \<le> 0)"
      by blast
    from Cons.prems UseAbility s1(1) have "calls (Some s1) cs = Inr (Some s')" by simp
    from Cons.IH [OF this] s1(2-5) show ?thesis by auto
  next
    case (EnemyTurn rnd)
    from Cons.prems EnemyTurn obtain st where
      st: "enemyTurn rnd (Some s) = Inr st" "calls st cs = Inr (Some s')"
      by (auto split: sum.splits)
    from enemyTurn_step [OF st(1)] obtain s1 where
      s1: "st = Some s1"
        "maxHP (player s1) = maxHP (player s)" "maxHP (enemy s1) = maxHP (enemy s)"
        "map power (abilities (enemy s1)) = map power (abilities (enemy s))"
        "s1 = s \<or> gameOver s1 = (currentHP (player s1) \<le> 0 \<or> currentHP (enemy s1) \<le> 0)"
      by blast
    from st(2) s1(1) have "calls (Some s1) cs = Inr (Some s')" by simp
    from Cons.IH [OF this] s1(2-5) show ?thesis by auto
  qed
qed

section \<open>Effects of an ability\<close>

text \<open>
  C1. An attack of power \<open>p\<close> on a target with shield \<open>s\<close> and health \<open>h\<close>, where
  \<open>p\<close> and \<open>s\<close> are non-negative as the data model has them: the damage that reaches
  the health (the value of the effect) is \<open>max 0 (p - min p s)\<close>, the shield left is
  \<open>max 0 (s - p)\<close>, the health left is \<open>max 0 (h - damage)\<close>, and the health and
  shield of the source stay as they were.
\<close>

theorem attack_law:
  assumes "Ability.type ability = Attack" and "0 \<le> power ability" and "0 \<le> shield targ"
  shows "effect (applyAbility source targ ability isPlayer) =
           Some \<lparr> Effect.type = Eff_damage, target = (if isPlayer then Enemy else Player),
                  value = max 0 (power ability - min (power ability) (shield targ)) \<rparr>
       \<and> shield (updatedTarget (applyAbility source targ ability isPlayer)) =
           max 0 (shield targ - power ability)
       \<and> currentHP (updatedTarget (applyAbility source targ ability isPlayer)) =
           max 0 (currentHP targ - max 0 (power ability - min (power ability) (shield targ)))
       \<and> currentHP (updatedSource (applyAbility source targ ability isPlayer)) = currentHP source
       \<and> shield (updatedSource (applyAbility source targ ability isPlayer)) = shield source"
  using assms by (auto simp add: applyAbility_attack applyAttack_def Let_def)

text \<open>
  Scenario B of the specification: a shield of 15 under an attack of power 20 leaves no
  shield and takes 5 from the health.
\<close>

theorem attack_law_witness:
  "Ability.type flameLash = Attack \<and> 0 \<le> power flameLash
   \<and> 0 \<le> shield (elyndra\<lparr>shield := 15\<rparr>)
   \<and> effect (applyAbility valdrin (elyndra\<lparr>shield := 15\<rparr>) flameLash True) =
           Some \<lparr> Effect.type = Eff_damage, target = Enemy, value = 5 \<rparr>
   \<and> shield (updatedTarget (applyAbility valdrin (elyndra\<lparr>shield := 15\<rparr>) flameLash True)) = 0
   \<and> currentHP (updatedTarget (applyAbility valdrin (elyndra\<lparr>shield := 15\<rparr>) flameLash True))
       = 85
   \<and> currentHP (updatedSource (applyAbility valdrin (elyndra\<lparr>shield := 15\<rparr>) flameLash True))
       = 100"
  using attack_law [of flameLash "elyndra\<lparr>shield := 15\<rparr>" valdrin True]
  by (simp add: sample_defs)

text \<open>
  C5. A heal restores \<open>healed = min power (maxHP - currentHP)\<close>: the health of the source
  becomes \<open>currentHP + healed\<close>, which is at most \<open>maxHP\<close> (whatever the health was
  before, so also when it was at most \<open>maxHP\<close>); the effect is a heal on the side of the
  source with value \<open>healed\<close>, and the target is returned as it was.
\<close>

theorem heal_law:
  assumes "Ability.type ability = Heal"
  shows "effect (applyAbility source targ ability isPlayer) =
           Some \<lparr> Effect.type = Eff_heal, target = (if isPlayer then Player else Enemy),
                  value = min (power ability) (maxHP source - currentHP source) \<rparr>
       \<and> currentHP (updatedSource (applyAbility source targ ability isPlayer)) =
           currentHP source + min (power ability) (maxHP source - currentHP source)
       \<and> maxHP (updatedSource (applyAbility source targ ability isPlayer)) = maxHP source
       \<and> currentHP (updatedSource (applyAbility source targ ability isPlayer)) \<le> maxHP source
       \<and> updatedTarget (applyAbility source targ ability isPlayer) = targ"
  using assms by (auto simp add: applyAbility_heal applyHeal_def Let_def)

text \<open>
  Scenario C of the specification: at 90 of 100 a heal of 25 restores 10.
\<close>

theorem heal_law_witness:
  "Ability.type vitalSurge = Heal
   \<and> effect (applyAbility (valdrin\<lparr>currentHP := 90\<rparr>) elyndra vitalSurge True) =
        Some \<lparr> Effect.type = Eff_heal, target = Player, value = 10 \<rparr>
   \<and> currentHP (updatedSource (applyAbility (valdrin\<lparr>currentHP := 90\<rparr>) elyndra vitalSurge True))
        = 100
   \<and> updatedTarget (applyAbility (valdrin\<lparr>currentHP := 90\<rparr>) elyndra vitalSurge True) = elyndra"
  using heal_law [of vitalSurge "valdrin\<lparr>currentHP := 90\<rparr>" elyndra True]
  by (simp add: sample_defs)

section \<open>Cooldowns\<close>

text \<open>
  C2, as the code has it. Whatever the type of the ability used, the list of abilities
  returned for the source has the length and order of the old one, and every entry is
  the old entry with only its countdown changed: an entry named like the ability used
  gets its own \<open>cooldown\<close>; an entry with another name and a positive countdown loses
  exactly 1; an entry with another name at 0 stays as it is.
\<close>

theorem cooldown_by_name:
  "length (abilities (updatedSource (applyAbility source targ ability isPlayer))) =
     length (abilities source)
   \<and> (\<forall>i < length (abilities source).
        (Ability.name (abilities source ! i) = Ability.name ability \<longrightarrow>
           abilities (updatedSource (applyAbility source targ ability isPlayer)) ! i =
             (abilities source ! i)\<lparr>currentCooldown := cooldown (abilities source ! i)\<rparr>)
      \<and> (Ability.name (abilities source ! i) \<noteq> Ability.name ability
           \<and> currentCooldown (abilities source ! i) > 0 \<longrightarrow>
           abilities (updatedSource (applyAbility source targ ability isPlayer)) ! i =
             (abilities source ! i)\<lparr>currentCooldown := currentCooldown (abilities source ! i) - 1\<rparr>)
      \<and> (Ability.name (abilities source ! i) \<noteq> Ability.name ability
           \<and> currentCooldown (abilities source ! i) = 0 \<longrightarrow>
           abilities (updatedSource (applyAbility source targ ability isPlayer)) ! i =
             abilities source ! i))"
  by (simp add: applyAbility_abilities updateCooldown_def)

text \<open>
  Ember Vortex (cooldown 4) is used while Aegis Ward stands at 2 and Vital Surge at 1.
\<close>

theorem cooldown_by_name_witness:
  "(3::nat) < length (abilities (valdrin\<lparr>abilities := [flameLash, aegisWard\<lparr>currentCooldown := 2\<rparr>,
                                  vitalSurge\<lparr>currentCooldown := 1\<rparr>, emberVortex]\<rparr>))
   \<and> Ability.name (abilities (valdrin\<lparr>abilities := [flameLash, aegisWard\<lparr>currentCooldown := 2\<rparr>,
                                  vitalSurge\<lparr>currentCooldown := 1\<rparr>, emberVortex]\<rparr>) ! 3)
       = Ability.name emberVortex
   \<and> Ability.name (abilities (valdrin\<lparr>abilities := [flameLash, aegisWard\<lparr>currentCooldown := 2\<rparr>,
                                  vitalSurge\<lparr>currentCooldown := 1\<rparr>, emberVortex]\<rparr>) ! 1)
       \<noteq> Ability.name emberVortex
   \<and> currentCooldown (abilities (valdrin\<lparr>abilities := [flameLash, aegisWard\<lparr>currentCooldown := 2\<rparr>,
                                  vitalSurge\<lparr>currentCooldown := 1\<rparr>, emberVortex]\<rparr>) ! 1) > 0
   \<and> Ability.name (abilities (valdrin\<lparr>abilities := [flameLash, aegisWard\<lparr>currentCooldown := 2\<rparr>,
                                  vitalSurge\<lparr>currentCooldown := 1\<rparr>, emberVortex]\<rparr>) ! 0)
       \<noteq> Ability.name emberVortex
   \<and> currentCooldown (abilities (valdrin\<lparr>abilities := [flameLash, aegisWard\<lparr>currentCooldown := 2\<rparr>,
                                  vitalSurge\<lparr>currentCooldown := 1\<rparr>, emberVortex]\<rparr>) ! 0) = 0
   \<and> map currentCooldown (abilities (updatedSource (applyAbility
          (valdrin\<lparr>abilities := [flameLash, aegisWard\<lparr>currentCooldown := 2\<rparr>,
                                  vitalSurge\<lparr>currentCooldown := 1\<rparr>, emberVortex]\<rparr>)
          elyndra emberVortex True)))
       = [0, 1, 0, 4]"
  using cooldown_by_name [of "valdrin\<lparr>abilities := [flameLash, aegisWard\<lparr>currentCooldown := 2\<rparr>,
                                  vitalSurge\<lparr>currentCooldown := 1\<rparr>, emberVortex]\<rparr>"
                             elyndra emberVortex True]
  by (simp add: applyAbility_abilities updateCooldown_def sample_defs)

text \<open>
  The law does not hold for "every other ability": a second ability that carries the
  name of the one used, standing at 2, is reset to its cooldown 4 and not lowered to 1.
\<close>

theorem cooldown_other_same_name_counterexample:
  "abilities (valdrin\<lparr>abilities := [flameLash, flameLash\<lparr>cooldown := 4, currentCooldown := 2\<rparr>]\<rparr>) ! 0
     = flameLash
   \<and> abilities (valdrin\<lparr>abilities := [flameLash, flameLash\<lparr>cooldown := 4, currentCooldown := 2\<rparr>]\<rparr>) ! 1
     \<noteq> flameLash
   \<and> currentCooldown
       (abilities (valdrin\<lparr>abilities := [flameLash, flameLash\<lparr>cooldown := 4, currentCooldown := 2\<rparr>]\<rparr>) ! 1)
     = 2
   \<and> currentCooldown
       (abilities (updatedSource (applyAbility
          (valdrin\<lparr>abilities := [flameLash, flameLash\<lparr>cooldown := 4, currentCooldown := 2\<rparr>]\<rparr>)
          elyndra flameLash True)) ! 1)
     = 4
   \<and> currentCooldown
       (abilities (updatedSource (applyAbility
          (valdrin\<lparr>abilities := [flameLash, flameLash\<lparr>cooldown := 4, currentCooldown := 2\<rparr>]\<rparr>)
          elyndra flameLash True)) ! 1)
     \<noteq> 2 - 1"
  by (simp add: applyAbility_abilities updateCooldown_def sample_defs)

text \<open>
  C10. The ability used is found by its name: every entry of the source's list with
  that name is set to its own full cooldown, whatever its countdown was. When the names
  in the list are pairwise distinct, the entry that is the ability used is set to its
  cooldown, every other entry with a positive countdown is lowered by 1 and every other
  entry at 0 stays at 0.
\<close>

theorem cooldown_distinct_names:
  "(\<forall>i < length (abilities source).
      Ability.name (abilities source ! i) = Ability.name ability \<longrightarrow>
        currentCooldown (abilities (updatedSource (applyAbility source targ ability isPlayer)) ! i)
          = cooldown (abilities source ! i))
   \<and> (distinct (map Ability.name (abilities source)) \<longrightarrow>
        (\<forall>i < length (abilities source). abilities source ! i = ability \<longrightarrow>
           currentCooldown (abilities (updatedSource (applyAbility source targ ability isPlayer)) ! i)
             = cooldown ability
         \<and> (\<forall>j < length (abilities source). j \<noteq> i \<longrightarrow>
              (currentCooldown (abilities source ! j) > 0 \<longrightarrow>
                 currentCooldown
                   (abilities (updatedSource (applyAbility source targ ability isPlayer)) ! j)
                   = currentCooldown (abilities source ! j) - 1)
            \<and> (currentCooldown (abilities source ! j) = 0 \<longrightarrow>
                 currentCooldown
                   (abilities (updatedSource (applyAbility source targ ability isPlayer)) ! j)
                   = 0))))"
proof -
  have other: "Ability.name (abilities source ! j) \<noteq> Ability.name (abilities source ! i)"
    if "distinct (map Ability.name (abilities source))"
      and "i < length (abilities source)" and "j < length (abilities source)" and "j \<noteq> i"
    for i j
    using that by (metis distinct_conv_nth length_map nth_map)
  show ?thesis
    by (auto simp add: applyAbility_abilities updateCooldown_def dest: other)
qed

text \<open>
  Four of Valdrin's abilities, with distinct names; Aegis Ward (cooldown 2) is used while
  Vital Surge stands at 3 and Ember Vortex at 1.
\<close>

theorem cooldown_distinct_names_witness:
  "distinct (map Ability.name (abilities (valdrin\<lparr>abilities :=
       [flameLash, aegisWard, vitalSurge\<lparr>currentCooldown := 3\<rparr>,
        emberVortex\<lparr>currentCooldown := 1\<rparr>]\<rparr>)))
   \<and> abilities (valdrin\<lparr>abilities :=
       [flameLash, aegisWard, vitalSurge\<lparr>currentCooldown := 3\<rparr>,
        emberVortex\<lparr>currentCooldown := 1\<rparr>]\<rparr>) ! 1 = aegisWard
   \<and> map currentCooldown (abilities (valdrin\<lparr>abilities :=
       [flameLash, aegisWard, vitalSurge\<lparr>currentCooldown := 3\<rparr>,
        emberVortex\<lparr>currentCooldown := 1\<rparr>]\<rparr>)) = [0, 0, 3, 1]
   \<and> map currentCooldown (abilities (updatedSource (applyAbility
       (valdrin\<lparr>abilities :=
          [flameLash, aegisWard, vitalSurge\<lparr>currentCooldown := 3\<rparr>,
           emberVortex\<lparr>currentCooldown := 1\<rparr>]\<rparr>)
       elyndra aegisWard True)))
       = [0, 2, 2, 0]"
  using cooldown_distinct_names
          [of "valdrin\<lparr>abilities :=
                 [flameLash, aegisWard, vitalSurge\<lparr>currentCooldown := 3\<rparr>,
                  emberVortex\<lparr>currentCooldown := 1\<rparr>]\<rparr>"
              aegisWard elyndra True]
  by (simp add: applyAbility_abilities updateCooldown_def sample_defs)

section \<open>Turns\<close>

text \<open>
  C4. \<open>useAbility\<close> returns the state it was given, whole, when there is no state
  yet, when the turn is odd, when the ability passed is on cooldown or when the game is
  over; \<open>enemyTurn\<close> does so when there is no state yet, when the turn is even or when
  the game is over. Once the game is over, no sequence of calls changes the state.
\<close>

theorem rejected_calls_change_nothing:
  "useAbility None ability = None
   \<and> (odd (turn s) \<or> currentCooldown ability > 0 \<or> gameOver s \<longrightarrow>
        useAbility (Some s) ability = Some s)
   \<and> enemyTurn rnd None = Inr None
   \<and> (even (turn s) \<or> gameOver s \<longrightarrow> enemyTurn rnd (Some s) = Inr (Some s))
   \<and> (gameOver s \<longrightarrow> calls (Some s) cs = Inr (Some s))"
proof -
  have "js_rem (turn s) 2 \<noteq> 1" if "even (turn s)"
    using that by (simp add: js_rem_2_one)
  then show ?thesis
    by (auto simp add: useAbility_rejected enemyTurn_rejected calls_after_gameOver)
       (simp_all add: useAbility_def enemyTurn_def)
qed

theorem rejected_calls_change_nothing_witness:
  "odd (turn ((initState valdrin elyndra)\<lparr>turn := 3, gameOver := True\<rparr>))
   \<and> currentCooldown (flameLash\<lparr>currentCooldown := 1\<rparr>) > 0
   \<and> gameOver ((initState valdrin elyndra)\<lparr>turn := 3, gameOver := True\<rparr>)
   \<and> useAbility (Some ((initState valdrin elyndra)\<lparr>turn := 3, gameOver := True\<rparr>))
        (flameLash\<lparr>currentCooldown := 1\<rparr>)
       = Some ((initState valdrin elyndra)\<lparr>turn := 3, gameOver := True\<rparr>)
   \<and> enemyTurn 0 (Some ((initState valdrin elyndra)\<lparr>turn := 3, gameOver := True\<rparr>))
       = Inr (Some ((initState valdrin elyndra)\<lparr>turn := 3, gameOver := True\<rparr>))
   \<and> calls (Some ((initState valdrin elyndra)\<lparr>turn := 3, gameOver := True\<rparr>))
        [UseAbility flameLash, EnemyTurn 0, UseAbility aegisWard]
       = Inr (Some ((initState valdrin elyndra)\<lparr>turn := 3, gameOver := True\<rparr>))
   \<and> even (turn (initState valdrin elyndra))
   \<and> enemyTurn 0 (Some (initState valdrin elyndra)) = Inr (Some (initState valdrin elyndra))"
  using rejected_calls_change_nothing
          [of "flameLash\<lparr>currentCooldown := 1\<rparr>"
              "(initState valdrin elyndra)\<lparr>turn := 3, gameOver := True\<rparr>" 0
              "[UseAbility flameLash, EnemyTurn 0, UseAbility aegisWard]"]
        rejected_calls_change_nothing [of flameLash "initState valdrin elyndra" 0 "[]"]
  by (simp add: initState_def)

text \<open>
  C6. On the enemy's move (odd turn, game not over) with every ability of the enemy on
  cooldown, \<open>enemyTurn\<close> returns the state as it was: no log line, no change of health
  or shield, the same turn.
\<close>

theorem enemy_stall:
  assumes "odd (turn s)" and "\<not> gameOver s"
    and "\<forall>a \<in> set (abilities (enemy s)). currentCooldown a > 0"
  shows "enemyTurn rnd (Some s) = Inr (Some s)"
proof -
  have "filter (\<lambda>a. currentCooldown a = 0) (abilities (enemy s)) = []"
    using assms(3) by (auto simp add: filter_empty_conv)
  then show ?thesis by (rule enemyTurn_stalled)
qed

theorem enemy_stall_witness:
  "odd (turn ((initState valdrin
          (elyndra\<lparr>abilities := [aegisWard\<lparr>currentCooldown := 2\<rparr>,
                                  vitalSurge\<lparr>currentCooldown := 3\<rparr>]\<rparr>))\<lparr>turn := 1\<rparr>))
   \<and> \<not> gameOver ((initState valdrin
          (elyndra\<lparr>abilities := [aegisWard\<lparr>currentCooldown := 2\<rparr>,
                                  vitalSurge\<lparr>currentCooldown := 3\<rparr>]\<rparr>))\<lparr>turn := 1\<rparr>)
   \<and> map currentCooldown (abilities (enemy ((initState valdrin
          (elyndra\<lparr>abilities := [aegisWard\<lparr>currentCooldown := 2\<rparr>,
                                  vitalSurge\<lparr>currentCooldown := 3\<rparr>]\<rparr>))\<lparr>turn := 1\<rparr>))) = [2, 3]
   \<and> enemyTurn 0 (Some ((initState valdrin
          (elyndra\<lparr>abilities := [aegisWard\<lparr>currentCooldown := 2\<rparr>,
                                  vitalSurge\<lparr>currentCooldown := 3\<rparr>]\<rparr>))\<lparr>turn := 1\<rparr>))
       = Inr (Some ((initState valdrin
          (elyndra\<lparr>abilities := [aegisWard\<lparr>currentCooldown := 2\<rparr>,
                                  vitalSurge\<lparr>currentCooldown := 3\<rparr>]\<rparr>))\<lparr>turn := 1\<rparr>))"
  using enemy_stall [of "(initState valdrin
          (elyndra\<lparr>abilities := [aegisWard\<lparr>currentCooldown := 2\<rparr>,
                                  vitalSurge\<lparr>currentCooldown := 3\<rparr>]\<rparr>))\<lparr>turn := 1\<rparr>" 0]
  by (simp add: initState_def sample_defs)

text \<open>
  C7. A call of \<open>useAbility\<close> that changes the state was made on a turn with
  \<open>turn % 2 = 0\<close>, a call of \<open>enemyTurn\<close> that changes it on a turn with
  \<open>turn % 2 = 1\<close>; either leaves the turn one higher and the log one line longer, the
  old lines in place. An enemy with no usable ability leaves the state, and so the turn,
  as it was.
\<close>

theorem turn_parity:
  "(useAbility state ability \<noteq> state \<longrightarrow>
      (\<exists>s s' e. state = Some s \<and> useAbility state ability = Some s'
         \<and> js_rem (turn s) 2 = 0 \<and> turn s' = turn s + 1 \<and> log s' = log s @ [e]))
   \<and> (enemyTurn rnd state = Inr state' \<and> state' \<noteq> state \<longrightarrow>
      (\<exists>s s' e. state = Some s \<and> state' = Some s'
         \<and> js_rem (turn s) 2 = 1 \<and> turn s' = turn s + 1 \<and> log s' = log s @ [e]))
   \<and> (filter (\<lambda>a. currentCooldown a = 0) (abilities (enemy s)) = [] \<longrightarrow>
        enemyTurn rnd (Some s) = Inr (Some s))"
proof (intro conjI impI)
  assume ch: "useAbility state ability \<noteq> state"
  then obtain s where s: "state = Some s"
    by (cases state) (simp_all add: useAbility_def)
  from ch s have g: "js_rem (turn s) 2 = 0" "currentCooldown ability \<le> 0" "\<not> gameOver s"
    by (auto simp add: useAbility_def split: if_splits)
  show "\<exists>s s' e. state = Some s \<and> useAbility state ability = Some s'
         \<and> js_rem (turn s) 2 = 0 \<and> turn s' = turn s + 1 \<and> log s' = log s @ [e]"
    using s g by (simp add: useAbility_accepted)
next
  assume ch: "enemyTurn rnd state = Inr state' \<and> state' \<noteq> state"
  then obtain s where s: "state = Some s"
    by (cases state) (auto simp add: enemyTurn_def)
  let ?av = "filter (\<lambda>a. currentCooldown a = 0) (abilities (enemy s))"
  from ch s have g: "js_rem (turn s) 2 = 1" "\<not> gameOver s" "rnd < length ?av"
    by (auto simp add: enemyTurn_def Let_def split: if_splits)
  from ch s enemyTurn_accepted [OF g refl]
  show "\<exists>s s' e. state = Some s \<and> state' = Some s'
         \<and> js_rem (turn s) 2 = 1 \<and> turn s' = turn s + 1 \<and> log s' = log s @ [e]"
    using g(1) by auto
next
  assume "filter (\<lambda>a. currentCooldown a = 0) (abilities (enemy s)) = []"
  then show "enemyTurn rnd (Some s) = Inr (Some s)" by (rule enemyTurn_stalled)
qed

theorem turn_parity_witness:
  "useAbility (Some (initState valdrin elyndra)) flameLash \<noteq> Some (initState valdrin elyndra)
   \<and> turn (the (useAbility (Some (initState valdrin elyndra)) flameLash)) = 1
   \<and> butlast (log (the (useAbility (Some (initState valdrin elyndra)) flameLash)))
       = log (initState valdrin elyndra)
   \<and> enemyTurn 2 (Some ((initState valdrin elyndra)\<lparr>turn := 1\<rparr>))
       = Inr (projr (enemyTurn 2 (Some ((initState valdrin elyndra)\<lparr>turn := 1\<rparr>))))
   \<and> projr (enemyTurn 2 (Some ((initState valdrin elyndra)\<lparr>turn := 1\<rparr>)))
       \<noteq> Some ((initState valdrin elyndra)\<lparr>turn := 1\<rparr>)
   \<and> turn (the (projr (enemyTurn 2 (Some ((initState valdrin elyndra)\<lparr>turn := 1\<rparr>))))) = 2
   \<and> butlast (log (the (projr (enemyTurn 2 (Some ((initState valdrin elyndra)\<lparr>turn := 1\<rparr>))))))
       = log ((initState valdrin elyndra)\<lparr>turn := 1\<rparr>)
   \<and> filter (\<lambda>a. currentCooldown a = 0)
        (abilities (enemy ((initState valdrin
           (elyndra\<lparr>abilities := [chronoRift\<lparr>currentCooldown := 4\<rparr>]\<rparr>))\<lparr>turn := 1\<rparr>))) = []
   \<and> enemyTurn 0 (Some ((initState valdrin
           (elyndra\<lparr>abilities := [chronoRift\<lparr>currentCooldown := 4\<rparr>]\<rparr>))\<lparr>turn := 1\<rparr>))
       = Inr (Some ((initState valdrin
           (elyndra\<lparr>abilities := [chronoRift\<lparr>currentCooldown := 4\<rparr>]\<rparr>))\<lparr>turn := 1\<rparr>))"
  using turn_parity [of "Some (initState valdrin elyndra)" flameLash 0 None
                        "initState valdrin elyndra"]
        turn_parity [of "Some ((initState valdrin elyndra)\<lparr>turn := 1\<rparr>)" flameLash 2
                        "projr (enemyTurn 2 (Some ((initState valdrin elyndra)\<lparr>turn := 1\<rparr>)))"
                        "(initState valdrin
                            (elyndra\<lparr>abilities := [chronoRift\<lparr>currentCooldown := 4\<rparr>]\<rparr>))\<lparr>turn := 1\<rparr>"]
  by (simp add: useAbility_def enemyTurn_def endTurn_def Let_def initState_def
        sample_defs)

section \<open>Game over\<close>

text \<open>
  C3, as the code has it. \<open>endTurn\<close> computes the flag anew from both combatants, so
  after an accepted \<open>useAbility\<close> the game is over exactly when the health of the player
  or of the enemy, after the action, is at most 0. In a battle run from \<open>initState p e\<close>
  by any calls, with the player initialised at positive health (and \<open>maxHP\<close> positive,
  the power of the ability non-negative), this is the test of the enemy alone: the player
  is left with positive health. After an accepted \<open>enemyTurn\<close> of such a battle (the
  \<open>maxHP\<close> of the enemy positive, its powers non-negative) the game is over exactly
  when the health of the player is at most 0: the enemy is left with positive health, so
  its own health never ends the game on its own action.
\<close>

theorem game_over_after_action:
  "(js_rem (turn s) 2 = 0 \<and> currentCooldown ability \<le> 0 \<and> \<not> gameOver s \<longrightarrow>
      (\<exists>s'. useAbility (Some s) ability = Some s'
         \<and> gameOver s' = (currentHP (player s') \<le> 0 \<or> currentHP (enemy s') \<le> 0)))
   \<and> (calls (Some (initState p e)) cs = Inr (Some t)
        \<and> 0 < currentHP p \<and> 0 < maxHP p \<and> 0 \<le> power ability
        \<and> js_rem (turn t) 2 = 0 \<and> currentCooldown ability \<le> 0 \<and> \<not> gameOver t \<longrightarrow>
      (\<exists>t'. useAbility (Some t) ability = Some t'
         \<and> gameOver t' = (currentHP (enemy t') \<le> 0) \<and> 0 < currentHP (player t')))
   \<and> (calls (Some (initState p e)) cs = Inr (Some t)
        \<and> 0 < maxHP e \<and> (\<forall>a \<in> set (abilities e). 0 \<le> power a)
        \<and> js_rem (turn t) 2 = 1 \<and> \<not> gameOver t
        \<and> rnd < length (filter (\<lambda>a. currentCooldown a = 0) (abilities (enemy t))) \<longrightarrow>
      (\<exists>t'. enemyTurn rnd (Some t) = Inr (Some t')
         \<and> gameOver t' = (currentHP (player t') \<le> 0) \<and> 0 < currentHP (enemy t')))"
proof (intro conjI impI)
  assume "js_rem (turn s) 2 = 0 \<and> currentCooldown ability \<le> 0 \<and> \<not> gameOver s"
  then show "\<exists>s'. useAbility (Some s) ability = Some s'
         \<and> gameOver s' = (currentHP (player s') \<le> 0 \<or> currentHP (enemy s') \<le> 0)"
    by (simp add: useAbility_accepted)
next
  assume a: "calls (Some (initState p e)) cs = Inr (Some t)
        \<and> 0 < currentHP p \<and> 0 < maxHP p \<and> 0 \<le> power ability
        \<and> js_rem (turn t) 2 = 0 \<and> currentCooldown ability \<le> 0 \<and> \<not> gameOver t"
  from calls_keep [of "initState p e" cs t] a
  have k: "maxHP (player t) = maxHP p"
      "t = initState p e \<or> gameOver t = (currentHP (player t) \<le> 0 \<or> currentHP (enemy t) \<le> 0)"
    by (simp_all add: initState_def)
  from k(2) a have "0 < currentHP (player t)"
    by (auto simp add: initState_def)
  with a k(1) have "0 < currentHP (updatedSource (applyAbility (player t) (enemy t) ability True))"
    by (simp add: source_stays_alive)
  with a show "\<exists>t'. useAbility (Some t) ability = Some t'
         \<and> gameOver t' = (currentHP (enemy t') \<le> 0) \<and> 0 < currentHP (player t')"
    by (simp add: useAbility_accepted)
next
  assume a: "calls (Some (initState p e)) cs = Inr (Some t)
        \<and> 0 < maxHP e \<and> (\<forall>a \<in> set (abilities e). 0 \<le> power a)
        \<and> js_rem (turn t) 2 = 1 \<and> \<not> gameOver t
        \<and> rnd < length (filter (\<lambda>a. currentCooldown a = 0) (abilities (enemy t)))"
  let ?av = "filter (\<lambda>a. currentCooldown a = 0) (abilities (enemy t))"
  from calls_keep [of "initState p e" cs t] a
  have k: "maxHP (enemy t) = maxHP e"
      "map power (abilities (enemy t)) = map power (abilities e)"
      "t = initState p e \<or> gameOver t = (currentHP (player t) \<le> 0 \<or> currentHP (enemy t) \<le> 0)"
    by (simp_all add: initState_def)
  from a have "t \<noteq> initState p e"
    by (auto simp add: initState_def)
  with k(3) a have alive: "0 < currentHP (enemy t)" by auto
  from a have "?av ! rnd \<in> set ?av" by (intro nth_mem) blast
  then have "?av ! rnd \<in> set (abilities (enemy t))" by simp
  then have "power (?av ! rnd) \<in> set (map power (abilities (enemy t)))" by simp
  with k(2) a have "0 \<le> power (?av ! rnd)" by auto
  with alive a k(1)
  have "0 < currentHP (updatedSource (applyAbility (enemy t) (player t) (?av ! rnd) False))"
    by (simp add: source_stays_alive)
  with a enemyTurn_accepted [of t rnd "?av ! rnd"]
  show "\<exists>t'. enemyTurn rnd (Some t) = Inr (Some t')
         \<and> gameOver t' = (currentHP (player t') \<le> 0) \<and> 0 < currentHP (enemy t')"
    by simp
qed

theorem game_over_after_action_witness:
  "(js_rem (turn (initState (valdrin\<lparr>currentHP := 0\<rparr>) elyndra)) 2 = 0
    \<and> currentCooldown flameLash \<le> 0
    \<and> \<not> gameOver (initState (valdrin\<lparr>currentHP := 0\<rparr>) elyndra)
    \<and> gameOver (the (useAbility (Some (initState (valdrin\<lparr>currentHP := 0\<rparr>) elyndra)) flameLash))
    \<and> currentHP (player (the (useAbility (Some (initState (valdrin\<lparr>currentHP := 0\<rparr>) elyndra))
                                flameLash))) = 0
    \<and> currentHP (enemy (the (useAbility (Some (initState (valdrin\<lparr>currentHP := 0\<rparr>) elyndra))
                               flameLash))) = 70)
   \<and> (calls (Some (initState valdrin (elyndra\<lparr>currentHP := 80\<rparr>)))
         [UseAbility infernalBlast, EnemyTurn 0]
        = Inr (Some (the (projr (calls (Some (initState valdrin (elyndra\<lparr>currentHP := 80\<rparr>)))
                                   [UseAbility infernalBlast, EnemyTurn 0]))))
    \<and> 0 < currentHP valdrin \<and> 0 < maxHP valdrin \<and> 0 \<le> power emberVortex
    \<and> js_rem (turn (the (projr (calls (Some (initState valdrin (elyndra\<lparr>currentHP := 80\<rparr>)))
                                   [UseAbility infernalBlast, EnemyTurn 0])))) 2 = 0
    \<and> currentCooldown emberVortex \<le> 0
    \<and> \<not> gameOver (the (projr (calls (Some (initState valdrin (elyndra\<lparr>currentHP := 80\<rparr>)))
                                   [UseAbility infernalBlast, EnemyTurn 0])))
    \<and> gameOver (the (useAbility
         (projr (calls (Some (initState valdrin (elyndra\<lparr>currentHP := 80\<rparr>)))
                   [UseAbility infernalBlast, EnemyTurn 0])) emberVortex))
    \<and> currentHP (enemy (the (useAbility
         (projr (calls (Some (initState valdrin (elyndra\<lparr>currentHP := 80\<rparr>)))
                   [UseAbility infernalBlast, EnemyTurn 0])) emberVortex))) = 0
    \<and> currentHP (player (the (useAbility
         (projr (calls (Some (initState valdrin (elyndra\<lparr>currentHP := 80\<rparr>)))
                   [UseAbility infernalBlast, EnemyTurn 0])) emberVortex))) = 80)
   \<and> (calls (Some (initState (valdrin\<lparr>currentHP := 20\<rparr>) elyndra)) [UseAbility flameLash]
        = Inr (Some (the (projr (calls (Some (initState (valdrin\<lparr>currentHP := 20\<rparr>) elyndra))
                                   [UseAbility flameLash]))))
    \<and> 0 < maxHP elyndra
    \<and> map power (abilities elyndra) = [20, 35, 25, 40, 30, 25]
    \<and> js_rem (turn (the (projr (calls (Some (initState (valdrin\<lparr>currentHP := 20\<rparr>) elyndra))
                                   [UseAbility flameLash])))) 2 = 1
    \<and> \<not> gameOver (the (projr (calls (Some (initState (valdrin\<lparr>currentHP := 20\<rparr>) elyndra))
                                   [UseAbility flameLash])))
    \<and> (0::nat) < length (filter (\<lambda>a. currentCooldown a = 0)
         (abilities (enemy (the (projr (calls (Some (initState (valdrin\<lparr>currentHP := 20\<rparr>) elyndra))
                                          [UseAbility flameLash]))))))
    \<and> gameOver (the (projr (enemyTurn 0
         (projr (calls (Some (initState (valdrin\<lparr>currentHP := 20\<rparr>) elyndra))
                   [UseAbility flameLash])))))
    \<and> currentHP (player (the (projr (enemyTurn 0
         (projr (calls (Some (initState (valdrin\<lparr>currentHP := 20\<rparr>) elyndra))
                   [UseAbility flameLash])))))) = 0
    \<and> currentHP (enemy (the (projr (enemyTurn 0
         (projr (calls (Some (initState (valdrin\<lparr>currentHP := 20\<rparr>) elyndra))
                   [UseAbility flameLash])))))) = 70)"
  (is "?first \<and> ?later \<and> ?enemy")
proof -
  note run_defs = useAbility_def enemyTurn_def endTurn_def applyAbility_def applyAttack_def
    Let_def initState_def js_rem_def sample_defs
  have 1: ?first
    using game_over_after_action
            [of "initState (valdrin\<lparr>currentHP := 0\<rparr>) elyndra" flameLash
                valdrin elyndra "[]" "initState valdrin elyndra" 0, THEN conjunct1]
    by (simp add: run_defs)
  have 2: ?later
  proof -
    have "\<exists>t. calls (Some (initState valdrin (elyndra\<lparr>currentHP := 80\<rparr>)))
                 [UseAbility infernalBlast, EnemyTurn 0] = Inr (Some t)
             \<and> turn t = 2 \<and> \<not> gameOver t
             \<and> currentHP (player t) = 80 \<and> currentHP (enemy t) = 35 \<and> shield (enemy t) = 0"
      by (simp add: run_defs)
    then obtain t where run:
        "calls (Some (initState valdrin (elyndra\<lparr>currentHP := 80\<rparr>)))
           [UseAbility infernalBlast, EnemyTurn 0] = Inr (Some t)"
      and t: "turn t = 2" "\<not> gameOver t"
        "currentHP (player t) = 80" "currentHP (enemy t) = 35" "shield (enemy t) = 0"
      by blast
    have g: "js_rem (turn t) 2 = 0" "currentCooldown emberVortex \<le> 0"
      "0 < currentHP valdrin" "0 < maxHP valdrin" "0 \<le> power emberVortex"
      "Ability.type emberVortex = Attack" "power emberVortex = 35"
      using t(1) by (simp_all add: js_rem_def sample_defs)
    from game_over_after_action
           [of "initState valdrin elyndra" emberVortex
               valdrin "elyndra\<lparr>currentHP := 80\<rparr>" "[UseAbility infernalBlast, EnemyTurn 0]" t 0,
            THEN conjunct2, THEN conjunct1] run t(2) g(1-5)
    obtain t' where t': "useAbility (Some t) emberVortex = Some t'"
        "gameOver t' = (currentHP (enemy t') \<le> 0)"
      by blast
    from t'(1) g t have v: "currentHP (enemy t') = 0" "currentHP (player t') = 80"
      by (auto simp add: useAbility_accepted applyAbility_attack applyAttack_def Let_def)
    show ?thesis
      unfolding run using t t' v g by simp
  qed
  have 3: ?enemy
  proof -
    have "\<exists>t. calls (Some (initState (valdrin\<lparr>currentHP := 20\<rparr>) elyndra)) [UseAbility flameLash]
                 = Inr (Some t)
             \<and> turn t = 1 \<and> \<not> gameOver t
             \<and> currentHP (player t) = 20 \<and> shield (player t) = 0 \<and> currentHP (enemy t) = 70
             \<and> abilities (enemy t) = abilities elyndra"
      by (simp add: run_defs)
    then obtain t where run:
        "calls (Some (initState (valdrin\<lparr>currentHP := 20\<rparr>) elyndra)) [UseAbility flameLash]
           = Inr (Some t)"
      and t: "turn t = 1" "\<not> gameOver t"
        "currentHP (player t) = 20" "shield (player t) = 0" "currentHP (enemy t) = 70"
        "abilities (enemy t) = abilities elyndra"
      by blast
    have g: "js_rem (turn t) 2 = 1" "0 < maxHP elyndra"
      "\<forall>a \<in> set (abilities elyndra). 0 \<le> power a"
      "map power (abilities elyndra) = [20, 35, 25, 40, 30, 25]"
      "0 < length (filter (\<lambda>a. currentCooldown a = 0) (abilities (enemy t)))"
      "filter (\<lambda>a. currentCooldown a = 0) (abilities (enemy t)) ! 0 = flameLash"
      "Ability.type flameLash = Attack" "power flameLash = 20"
      using t(1,6) by (simp_all add: sample_defs)
    from game_over_after_action
           [of "initState valdrin elyndra" flameLash
               "valdrin\<lparr>currentHP := 20\<rparr>" elyndra "[UseAbility flameLash]" t 0,
            THEN conjunct2, THEN conjunct2] run t(2) g(1-3,5)
    obtain t' where t': "enemyTurn 0 (Some t) = Inr (Some t')"
        "gameOver t' = (currentHP (player t') \<le> 0)"
      by blast
    from t'(1) enemyTurn_accepted [of t 0 flameLash] g t
    have v: "currentHP (player t') = 0" "currentHP (enemy t') = 70"
      by (auto simp add: applyAbility_attack applyAttack_def Let_def)
    show ?thesis
      unfolding run using t t' v g by simp
  qed
  from 1 2 3 show ?thesis by blast
qed

text \<open>
  After \<open>useAbility\<close> the flag is not the test of the enemy alone: a player who starts
  at health 0 and raises a shield ends the game, the enemy standing at 90.
\<close>

theorem game_over_target_only_counterexample:
  "useAbility (Some (initState (valdrin\<lparr>currentHP := 0\<rparr>) elyndra)) aegisWard
     \<noteq> Some (initState (valdrin\<lparr>currentHP := 0\<rparr>) elyndra)
   \<and> gameOver (the (useAbility (Some (initState (valdrin\<lparr>currentHP := 0\<rparr>) elyndra)) aegisWard))
   \<and> \<not> currentHP (enemy (the (useAbility (Some (initState (valdrin\<lparr>currentHP := 0\<rparr>) elyndra))
                                 aegisWard))) \<le> 0"
  by (simp add: useAbility_def endTurn_def applyAbility_def applyShield_def Let_def
        initState_def sample_defs)

section \<open>What the guards do not check\<close>

text \<open>
  C8. Initialisation sets \<open>gameOver\<close> to false and the turn to 0 whatever the health
  of the two combatants, also at or below 0; a call of \<open>useAbility\<close> with an ability
  that is not on cooldown is then accepted: the state changes, the turn is 1, the log has
  its second line and both combatants are those \<open>applyAbility\<close> returns.
\<close>

theorem init_ignores_health:
  "gameOver (initState p e) = False \<and> turn (initState p e) = 0
   \<and> (currentCooldown ability \<le> 0 \<longrightarrow>
        (\<exists>s'. useAbility (Some (initState p e)) ability = Some s'
           \<and> s' \<noteq> initState p e \<and> turn s' = 1 \<and> length (log s') = 2
           \<and> lastAttacker s' = Some Player
           \<and> player s' = updatedSource (applyAbility (p\<lparr>shield := 0, statusEffects := []\<rparr>)
                                          (e\<lparr>shield := 0, statusEffects := []\<rparr>) ability True)
           \<and> enemy s' = updatedTarget (applyAbility (p\<lparr>shield := 0, statusEffects := []\<rparr>)
                                          (e\<lparr>shield := 0, statusEffects := []\<rparr>) ability True)))"
proof -
  have "js_rem (turn (initState p e)) 2 = 0" "\<not> gameOver (initState p e)"
    by (simp_all add: initState_def js_rem_def)
  then show ?thesis
    by (auto simp add: useAbility_accepted) (auto simp add: initState_def)
qed

theorem init_ignores_health_witness:
  "currentHP (valdrin\<lparr>currentHP := 0\<rparr>) \<le> 0
   \<and> currentCooldown flameLash \<le> 0
   \<and> \<not> gameOver (initState (valdrin\<lparr>currentHP := 0\<rparr>) elyndra)
   \<and> turn (initState (valdrin\<lparr>currentHP := 0\<rparr>) elyndra) = 0
   \<and> turn (the (useAbility (Some (initState (valdrin\<lparr>currentHP := 0\<rparr>) elyndra)) flameLash)) = 1
   \<and> currentHP (enemy (the (useAbility (Some (initState (valdrin\<lparr>currentHP := 0\<rparr>) elyndra))
                               flameLash))) = 70"
  using init_ignores_health [of "valdrin\<lparr>currentHP := 0\<rparr>" elyndra flameLash]
  by (simp add: useAbility_def endTurn_def applyAbility_def applyAttack_def Let_def
        initState_def js_rem_def sample_defs)

text \<open>
  C9. The guard of \<open>useAbility\<close> reads the countdown of the ability it is passed
  and nothing of the player's list: an argument with a positive countdown is rejected,
  and on an even turn of a running game an argument at 0 is applied, whether or not it is
  one of the player's abilities and whatever countdown the player's copy of it has.
\<close>

theorem guard_reads_argument:
  "(currentCooldown ability > 0 \<longrightarrow> useAbility (Some s) ability = Some s)
   \<and> (js_rem (turn s) 2 = 0 \<and> \<not> gameOver s \<and> currentCooldown ability = 0 \<longrightarrow>
        useAbility (Some s) ability =
          Some (s\<lparr> player := updatedSource (applyAbility (player s) (enemy s) ability True),
              enemy := updatedTarget (applyAbility (player s) (enemy s) ability True),
              log := log s @ [logEntry (applyAbility (player s) (enemy s) ability True)],
              lastAttacker := Some Player,
              lastEffect := effect (applyAbility (player s) (enemy s) ability True),
              gameOver :=
                (currentHP (updatedSource (applyAbility (player s) (enemy s) ability True)) \<le> 0
                 \<or> currentHP (updatedTarget (applyAbility (player s) (enemy s) ability True)) \<le> 0),
              turn := turn s + 1 \<rparr>))"
  by (simp add: useAbility_accepted useAbility_rejected)

theorem guard_reads_argument_witness:
  "chronoRift \<notin> set (abilities (player (initState valdrin elyndra)))
   \<and> js_rem (turn (initState valdrin elyndra)) 2 = 0
   \<and> \<not> gameOver (initState valdrin elyndra)
   \<and> currentCooldown chronoRift = 0
   \<and> turn (the (useAbility (Some (initState valdrin elyndra)) chronoRift)) = 1
   \<and> currentHP (enemy (the (useAbility (Some (initState valdrin elyndra)) chronoRift))) = 60
   \<and> currentCooldown (flameLash\<lparr>currentCooldown := 1\<rparr>) > 0
   \<and> Ability.name (abilities (player (initState valdrin elyndra)) ! 0)
       = Ability.name (flameLash\<lparr>currentCooldown := 1\<rparr>)
   \<and> currentCooldown (abilities (player (initState valdrin elyndra)) ! 0) = 0
   \<and> useAbility (Some (initState valdrin elyndra)) (flameLash\<lparr>currentCooldown := 1\<rparr>)
       = Some (initState valdrin elyndra)"
  using guard_reads_argument [of chronoRift "initState valdrin elyndra"]
        guard_reads_argument [of "flameLash\<lparr>currentCooldown := 1\<rparr>" "initState valdrin elyndra"]
  by (simp add: useAbility_def endTurn_def applyAbility_def applyAttack_def Let_def
        initState_def js_rem_def sample_defs)

end
